theory Spec2Isabelle
  imports Complex_Main
begin

section \<open>Data model (types.ts)\<close>

text \<open>
  A JavaScript string is modelled as a \<^typ>\<open>string\<close>; a \<^typ>\<open>char\<close> stands for one
  code unit below 256. The browser's \<open>File\<close> object is opaque to the editor: only its
  identity matters, so it is a value with a name and a declared content type.
\<close>

datatype File = File (fileName: string) (fileType: string)

text \<open>
  \<open>interface ImageFile { file; previewUrl; base64; mimeType }\<close>. The field \<open>file\<close>
  (\<open>file_handle\<close> here) is optional in the model because \<open>{...currentImage, ...}\<close> copies no property when
  \<open>currentImage\<close> is \<open>undefined\<close> at run time; an uploaded image always has it.
\<close>

record ImageFile =
  file_handle :: "File option"
  previewUrl :: string
  base64 :: string
  mimeType :: string

record GeneratedImage =
  imageUrl :: string
  prompt :: string
  timestamp :: int

datatype EditorStatus = IDLE | UPLOADING | READY | PROCESSING | COMPLETE | ERROR

datatype EditorTab = Refine | Lighting | Background | Crop | Upscale

record Point =
  pt_x :: real
  pt_y :: real

section \<open>The editor's state (Editor.tsx, the \<open>useState\<close> cells of \<open>Editor\<close>)\<close>

text \<open>
  One field per \<open>useState\<close> cell. \<open>historyIndex\<close> is a JavaScript number that only
  ever holds integers, so it is an \<^typ>\<open>int\<close>. \<open>currentImage\<close> is \<open>None\<close> when the
  cell holds \<open>undefined\<close>, which is what an out-of-range read \<open>history[i]\<close> yields.
\<close>

record Editor =
  history :: "ImageFile list"
  historyIndex :: int
  currentImage :: "ImageFile option"
  generatedImage :: "GeneratedImage option"
  status :: EditorStatus
  errorMessage :: "string option"
  activeTab :: EditorTab
  customPrompt :: string
  targetObject :: string
  editAction :: string
  cropStart :: "Point option"
  cropEnd :: "Point option"
  isDraggingCrop :: bool

definition Editor_init :: "ImageFile \<Rightarrow> Editor" where
  "Editor_init initialImage =
     \<lparr> history = [initialImage],
       historyIndex = 0,
       currentImage = Some initialImage,
       generatedImage = None,
       status = READY,
       errorMessage = None,
       activeTab = Refine,
       customPrompt = [],
       targetObject = [],
       editAction = [],
       cropStart = None,
       cropEnd = None,
       isDraggingCrop = False \<rparr>"

section \<open>Array primitives\<close>

text \<open>
  \<open>xs.slice(0, end)\<close>: a negative \<open>end\<close> counts from the end of the array, and the
  bound is clamped to \<open>[0, length]\<close>.
\<close>

definition slice0 :: "'a list \<Rightarrow> int \<Rightarrow> 'a list" where
  "slice0 xs e =
     (let len = int (length xs);
          k = (if e < 0 then max (len + e) 0 else min e len)
      in take (nat k) xs)"

text \<open>\<open>xs[i]\<close>: \<open>undefined\<close> (here \<open>None\<close>) when \<open>i\<close> is not an index of the array.\<close>

definition index_js :: "'a list \<Rightarrow> int \<Rightarrow> 'a option" where
  "index_js xs i = (if 0 \<le> i \<and> i < int (length xs) then Some (xs ! nat i) else None)"

section \<open>History (Editor.tsx, \<open>addToHistory\<close>, \<open>undo\<close>, \<open>redo\<close>)\<close>

definition addToHistory :: "ImageFile \<Rightarrow> Editor \<Rightarrow> Editor" where
  "addToHistory newImage s =
     (let newHistory = slice0 (history s) (historyIndex s + 1) @ [newImage]
      in s\<lparr> history := newHistory,
            historyIndex := int (length newHistory) - 1,
            currentImage := Some newImage \<rparr>)"

definition undo :: "Editor \<Rightarrow> Editor" where
  "undo s =
     (if historyIndex s > 0 then
        (let newIndex = historyIndex s - 1
         in s\<lparr> historyIndex := newIndex,
               currentImage := index_js (history s) newIndex,
               generatedImage := None \<rparr>)
      else s)"

definition redo :: "Editor \<Rightarrow> Editor" where
  "redo s =
     (if historyIndex s < int (length (history s)) - 1 then
        (let newIndex = historyIndex s + 1
         in s\<lparr> historyIndex := newIndex,
               currentImage := index_js (history s) newIndex,
               generatedImage := None \<rparr>)
      else s)"

text \<open>
  The value of a call expression. \<open>undo\<close> and \<open>redo\<close> are arrow functions whose bodies
  have no \<open>return\<close> statement, so a call evaluates to \<open>undefined\<close>.
\<close>

datatype js_value = Undefined | Boolean bool

definition undo_call :: "Editor \<Rightarrow> js_value \<times> Editor" where
  "undo_call s = (Undefined, undo s)"

definition redo_call :: "Editor \<Rightarrow> js_value \<times> Editor" where
  "redo_call s = (Undefined, redo s)"

text \<open>The history invariant: a non-empty history, a cursor inside it, and the current
  image being the entry under the cursor.\<close>

definition history_inv :: "Editor \<Rightarrow> bool" where
  "history_inv s \<longleftrightarrow>
     1 \<le> length (history s) \<and>
     0 \<le> historyIndex s \<and>
     historyIndex s \<le> int (length (history s)) - 1 \<and>
     currentImage s = Some (history s ! nat (historyIndex s))"

datatype history_op = Commit ImageFile | Undo | Redo

fun apply_op :: "Editor \<Rightarrow> history_op \<Rightarrow> Editor" where
  "apply_op s (Commit img) = addToHistory img s"
| "apply_op s Undo = undo s"
| "apply_op s Redo = redo s"

section \<open>String primitives\<close>

text \<open>
  \<open>String.prototype.trim\<close> removes white space and line terminators from both ends.
  Among the code units below 256 these are TAB, LF, VT, FF, CR, SPACE and NBSP.
\<close>

definition isWhiteSpace :: "char \<Rightarrow> bool" where
  "isWhiteSpace c \<longleftrightarrow> (of_char c :: nat) \<in> {9, 10, 11, 12, 13, 32, 160}"

definition trim :: "string \<Rightarrow> string" where
  "trim str = rev (dropWhile isWhiteSpace (rev (dropWhile isWhiteSpace str)))"

text \<open>A template literal prints an \<open>undefined\<close> value as the word \<open>undefined\<close>.\<close>

definition template :: "string option \<Rightarrow> string" where
  "template v = (case v of None \<Rightarrow> ''undefined'' | Some str \<Rightarrow> str)"

text \<open>
  \<open>str.match(/data:([^;]+);/)\<close>, first capture group. The pattern is not anchored:
  the match is tried at every position from the left. At one position it needs the
  literal \<open>data:\<close>, then a non-empty run of characters other than \<open>;\<close> (the run is
  greedy, and no shorter run can be followed by \<open>;\<close>), then \<open>;\<close>.
\<close>

definition mimeMatch_at :: "string \<Rightarrow> string option" where
  "mimeMatch_at str =
     (if take 5 str = ''data:'' then
        (let rest = drop 5 str;
             run = takeWhile (\<lambda>c. c \<noteq> CHR '';'') rest;
             after = dropWhile (\<lambda>c. c \<noteq> CHR '';'') rest
         in if run \<noteq> [] \<and> after \<noteq> [] then Some run else None)
      else None)"

fun mimeMatch :: "string \<Rightarrow> string option" where
  "mimeMatch [] = None"
| "mimeMatch (c # cs) =
     (case mimeMatch_at (c # cs) of
        Some m \<Rightarrow> Some m
      | None \<Rightarrow> mimeMatch cs)"

text \<open>
  \<open>str.replace(/^data:image\/(png|jpeg|jpg|webp);base64,/, '')\<close>: the anchored prefix
  is removed when present; the alternatives are tried in the order written.
\<close>

definition dataUrlPrefixes :: "string list" where
  "dataUrlPrefixes =
     [''data:image/png;base64,'', ''data:image/jpeg;base64,'',
      ''data:image/jpg;base64,'', ''data:image/webp;base64,'']"

definition cleanBase64 :: "string \<Rightarrow> string" where
  "cleanBase64 base64Image =
     (case find (\<lambda>p. take (length p) base64Image = p) dataUrlPrefixes of
        Some p \<Rightarrow> drop (length p) base64Image
      | None \<Rightarrow> base64Image)"

section \<open>The remote service (geminiService.ts)\<close>

text \<open>
  A thrown value. \<open>message\<close> is what \<open>error.message\<close> reads; a thrown value without a
  message reads as the empty string here (both are falsy in \<open>error.message || ...\<close>).
\<close>

datatype error = Error (message: string) | TypeError (message: string)

text \<open>The response of \<open>ai.models.generateContent\<close>, with the SDK's optional fields.\<close>

record InlineData =
  inl_mimeType :: "string option"
  inl_data :: "string option"

record Part =
  inlineData :: "InlineData option"
  part_text :: "string option"

record Content =
  parts :: "Part list option"

record Candidate =
  content :: "Content option"

record GenerateContentResponse =
  candidates :: "Candidate list option"

datatype ImageSize = Size_1K | Size_2K | Size_4K

record EditConfig =
  model :: "string option"
  imageSize :: "ImageSize option"

text \<open>The argument of \<open>generateContent\<close>: model, the two parts, and the config.\<close>

record GenerateContentParameters =
  req_model :: string
  req_data :: string
  req_mimeType :: string
  req_text :: string
  req_imageConfig :: "ImageSize option"

text \<open>The value \<open>editImageWithGemini\<close> resolves to: \<open>{ imageUrl?, text? }\<close>.\<close>

record EditResult =
  resultImageUrl :: "string option"
  resultText :: "string option"

definition getClient :: "string option \<Rightarrow> error + string" where
  "getClient apiKey =
     (case apiKey of
        None \<Rightarrow> Inl (Error ''API Key is missing. Please ensure process.env.API_KEY is available.'')
      | Some k \<Rightarrow>
          if k = [] then
            Inl (Error ''API Key is missing. Please ensure process.env.API_KEY is available.'')
          else Inr k)"

text \<open>The \<open>for\<close> loop over the parts: a later part overwrites an earlier one.\<close>

fun scan_parts :: "Part list \<Rightarrow> EditResult \<Rightarrow> EditResult" where
  "scan_parts [] acc = acc"
| "scan_parts (part # rest) acc =
     (case inlineData part of
        Some d \<Rightarrow>
          scan_parts rest
            (acc\<lparr> resultImageUrl :=
                Some (''data:'' @ template (inl_mimeType d) @ '';base64,'' @ template (inl_data d)) \<rparr>)
      | None \<Rightarrow>
          (case part_text part of
             Some t \<Rightarrow>
               if t \<noteq> [] then scan_parts rest (acc\<lparr> resultText := Some t \<rparr>)
               else scan_parts rest acc
           | None \<Rightarrow> scan_parts rest acc))"

text \<open>
  \<open>if (response.candidates && response.candidates[0].content.parts)\<close>: an empty
  candidate list, or a first candidate without content, makes the property read throw a
  \<open>TypeError\<close> (the message is the engine's).
\<close>

definition read_response :: "GenerateContentResponse \<Rightarrow> error + EditResult" where
  "read_response response =
     (let nothing = \<lparr> resultImageUrl = None, resultText = None \<rparr> in
      case candidates response of
        None \<Rightarrow> Inr nothing
      | Some [] \<Rightarrow> Inl (TypeError ''Cannot read properties of undefined (reading 'content')'')
      | Some (c # _) \<Rightarrow>
          (case content c of
             None \<Rightarrow> Inl (TypeError ''Cannot read properties of undefined (reading 'parts')'')
           | Some ct \<Rightarrow>
               (case parts ct of
                  None \<Rightarrow> Inr nothing
                | Some ps \<Rightarrow> Inr (scan_parts ps nothing))))"

text \<open>
  The object literal passed to \<open>generateContent\<close>: the model (the default when the
  config names none), the image without its data-URL prefix, the prompt, and the image
  size, which is sent for the pro model only.
\<close>

definition requestOf :: "string \<Rightarrow> string \<Rightarrow> string \<Rightarrow> EditConfig \<Rightarrow> GenerateContentParameters" where
  "requestOf base64Image mime promptText config =
     (let mdl = (case model config of
                   Some m \<Rightarrow> if m \<noteq> [] then m else ''gemini-2.5-flash-image''
                 | None \<Rightarrow> ''gemini-2.5-flash-image'');
          imageConfig = (if imageSize config \<noteq> None \<and> mdl = ''gemini-3-pro-image-preview''
                         then imageSize config else None)
      in \<lparr> req_model = mdl,
           req_data = cleanBase64 base64Image,
           req_mimeType = mime,
           req_text = promptText,
           req_imageConfig = imageConfig \<rparr>)"

text \<open>
  The promise of \<open>editImageWithGemini\<close>: \<open>Inl\<close> when it rejects, \<open>Inr\<close> when it
  resolves. \<open>getClient\<close> runs before the \<open>try\<close>; the \<open>catch\<close> logs and throws the same
  error again. The environment is the API key and the remote call.
\<close>

definition editImageWithGemini ::
  "string option \<Rightarrow> (GenerateContentParameters \<Rightarrow> error + GenerateContentResponse) \<Rightarrow>
   string \<Rightarrow> string \<Rightarrow> string \<Rightarrow> EditConfig \<Rightarrow> error + EditResult" where
  "editImageWithGemini apiKey generateContent base64Image mime promptText config =
     (case getClient apiKey of
        Inl e \<Rightarrow> Inl e
      | Inr _ \<Rightarrow>
          (case generateContent (requestOf base64Image mime promptText config) of
             Inl e \<Rightarrow> Inl e
           | Inr response \<Rightarrow> read_response response))"

section \<open>Generating an edit (Editor.tsx, \<open>handleGenerate\<close>)\<close>

text \<open>
  \<open>handleGenerate\<close> is an \<open>async\<close> function with one \<open>await\<close>. It is modelled in two
  halves: \<open>handleGenerate_dispatch\<close> is what runs up to the \<open>await\<close> and yields the
  arguments of the call to \<open>editImageWithGemini\<close> it has issued, if any;
  \<open>handleGenerate_settle\<close> is what runs once the promise has settled, on the state of
  that moment. The parameter \<open>isMaskRequest\<close> is never read and is left out.
\<close>

record EditCall =
  call_base64 :: string
  call_mimeType :: string
  call_prompt :: string
  call_config :: EditConfig

definition handleGenerate_catch :: "error \<Rightarrow> Editor \<Rightarrow> Editor" where
  "handleGenerate_catch e s =
     s\<lparr> errorMessage :=
           Some (if message e \<noteq> [] then message e else ''Failed to generate image.''),
        status := ERROR \<rparr>"

definition handleGenerate_dispatch ::
  "string \<Rightarrow> EditConfig \<Rightarrow> Editor \<Rightarrow> Editor \<times> EditCall option" where
  "handleGenerate_dispatch finalPrompt config s =
     (if trim finalPrompt = [] then (s, None)
      else
        (let s1 = s\<lparr> status := PROCESSING, errorMessage := None \<rparr> in
         case currentImage s of
           None \<Rightarrow>
             (handleGenerate_catch
                (TypeError ''Cannot read properties of undefined (reading 'base64')'') s1,
              None)
         | Some cur \<Rightarrow>
             (s1,
              Some \<lparr> call_base64 = base64 cur,
                     call_mimeType = mimeType cur,
                     call_prompt = finalPrompt,
                     call_config = config \<rparr>)))"

definition handleGenerate_settle ::
  "string \<Rightarrow> int \<Rightarrow> error + EditResult \<Rightarrow> Editor \<Rightarrow> Editor" where
  "handleGenerate_settle finalPrompt now outcome s =
     (case outcome of
        Inl e \<Rightarrow> handleGenerate_catch e s
      | Inr result \<Rightarrow>
          (case resultImageUrl result of
             Some url \<Rightarrow>
               if url \<noteq> [] then
                 s\<lparr> generatedImage :=
                       Some \<lparr> imageUrl = url, prompt = finalPrompt, timestamp = now \<rparr>,
                    status := COMPLETE \<rparr>
               else handleGenerate_catch (Error ''The model did not return an image.'') s
           | None \<Rightarrow> handleGenerate_catch (Error ''The model did not return an image.'') s))"

text \<open>
  The whole of \<open>handleGenerate\<close> when no other event is handled while the call is
  pending. \<open>now\<close> is the value of \<open>Date.now()\<close>.
\<close>

definition handleGenerate ::
  "string option \<Rightarrow> (GenerateContentParameters \<Rightarrow> error + GenerateContentResponse) \<Rightarrow>
   int \<Rightarrow> string \<Rightarrow> EditConfig \<Rightarrow> Editor \<Rightarrow> Editor" where
  "handleGenerate apiKey generateContent now finalPrompt config s =
     (case handleGenerate_dispatch finalPrompt config s of
        (s1, None) \<Rightarrow> s1
      | (s1, Some c) \<Rightarrow>
          handleGenerate_settle finalPrompt now
            (editImageWithGemini apiKey generateContent
               (call_base64 c) (call_mimeType c) (call_prompt c) (call_config c))
            s1)"

definition defaultConfig :: EditConfig where
  "defaultConfig = \<lparr> model = None, imageSize = None \<rparr>"

text \<open>
  The controls that call \<open>handleGenerate\<close>. A preset button is rendered with
  \<open>disabled={status === EditorStatus.PROCESSING}\<close>; the custom prompt's button with
  \<open>disabled={!customPrompt.trim()}\<close>; the custom prompt's \<open>onKeyDown\<close> calls
  \<open>handleGenerate(customPrompt)\<close> on Enter with no condition on the status. A disabled
  button delivers no click.
\<close>

definition presetButton_disabled :: "Editor \<Rightarrow> bool" where
  "presetButton_disabled s \<longleftrightarrow> status s = PROCESSING"

definition customPromptButton_disabled :: "Editor \<Rightarrow> bool" where
  "customPromptButton_disabled s \<longleftrightarrow> trim (customPrompt s) = []"

definition presetButton_click :: "string \<Rightarrow> Editor \<Rightarrow> Editor \<times> EditCall option" where
  "presetButton_click presetPrompt s =
     (if presetButton_disabled s then (s, None)
      else handleGenerate_dispatch presetPrompt defaultConfig s)"

definition customPromptButton_click :: "Editor \<Rightarrow> Editor \<times> EditCall option" where
  "customPromptButton_click s =
     (if customPromptButton_disabled s then (s, None)
      else handleGenerate_dispatch (customPrompt s) defaultConfig s)"

definition customPrompt_keyDown_Enter :: "Editor \<Rightarrow> Editor \<times> EditCall option" where
  "customPrompt_keyDown_Enter s = handleGenerate_dispatch (customPrompt s) defaultConfig s"

section \<open>Keeping a generated image (Editor.tsx, \<open>handleUseAsSource\<close>)\<close>

definition handleUseAsSource :: "Editor \<Rightarrow> Editor" where
  "handleUseAsSource s =
     (case generatedImage s of
        None \<Rightarrow> s
      | Some g \<Rightarrow>
          (let mime = (case mimeMatch (imageUrl g) of Some m \<Rightarrow> m | None \<Rightarrow> ''image/png'');
               newImage =
                 (case currentImage s of
                    Some cur \<Rightarrow>
                      cur\<lparr> base64 := imageUrl g, previewUrl := imageUrl g, mimeType := mime \<rparr>
                  | None \<Rightarrow>
                      \<lparr> file_handle = None, previewUrl = imageUrl g,
                        base64 = imageUrl g, mimeType = mime \<rparr>)
           in (addToHistory newImage s)
                \<lparr> generatedImage := None,
                  targetObject := [],
                  editAction := [],
                  status := READY \<rparr>))"

section \<open>Cropping (Editor.tsx, \<open>applyCrop\<close>)\<close>

text \<open>
  The image element behind \<open>imageRef\<close>: the size of its bounding rectangle (display
  pixels) and its natural size. JavaScript numbers are modelled as reals; a quotient by
  zero, and every product with it, is not finite (\<open>Infinity\<close> or \<open>NaN\<close>) and is \<open>None\<close>.
\<close>

record HTMLImageElement =
  rect_width :: real
  rect_height :: real
  naturalWidth :: real
  naturalHeight :: real

definition js_div :: "real \<Rightarrow> real \<Rightarrow> real option" where
  "js_div a b = (if b = 0 then None else Some (a / b))"

definition js_mul :: "real \<Rightarrow> real option \<Rightarrow> real option" where
  "js_mul a k = (case k of None \<Rightarrow> None | Some r \<Rightarrow> Some (a * r))"

text \<open>
  What \<open>applyCrop\<close> asks of the canvas: the values assigned to \<open>canvas.width\<close> and
  \<open>canvas.height\<close>, and the source rectangle given to \<open>drawImage\<close>, in natural pixels.
\<close>

record CanvasOps =
  canvas_width :: "real option"
  canvas_height :: "real option"
  sx :: "real option"
  sy :: "real option"
  sWidth :: "real option"
  sHeight :: "real option"

text \<open>The rectangle computed from the selection; \<open>None\<close> when the crop is ignored.\<close>

definition cropRect :: "Point \<Rightarrow> Point \<Rightarrow> HTMLImageElement \<Rightarrow> CanvasOps option" where
  "cropRect cStart cEnd img =
     (let scaleX = js_div (naturalWidth img) (rect_width img);
          scaleY = js_div (naturalHeight img) (rect_height img);
          startX = min (pt_x cStart) (pt_x cEnd);
          startY = min (pt_y cStart) (pt_y cEnd);
          width = \<bar>pt_x cEnd - pt_x cStart\<bar>;
          height = \<bar>pt_y cEnd - pt_y cStart\<bar>
      in if width < 10 \<or> height < 10 then None
         else Some \<lparr> canvas_width = js_mul width scaleX,
                     canvas_height = js_mul height scaleY,
                     sx = js_mul startX scaleX,
                     sy = js_mul startY scaleY,
                     sWidth = js_mul width scaleX,
                     sHeight = js_mul height scaleY \<rparr>)"

text \<open>
  \<open>applyCrop\<close>, with its environment: the element behind \<open>imageRef\<close> (or \<open>null\<close>),
  whether \<open>getContext('2d')\<close> gives a context, and \<open>toDataURL\<close>, the encoding of what
  the canvas holds after the drawing. The result is the drawing issued, if any, and the
  new state. With \<open>currentImage\<close> undefined the read of \<open>currentImage.mimeType\<close> throws
  after the drawing and before any state is set.
\<close>

definition applyCrop ::
  "HTMLImageElement option \<Rightarrow> bool \<Rightarrow> (CanvasOps \<Rightarrow> string \<Rightarrow> string) \<Rightarrow>
   Editor \<Rightarrow> CanvasOps option \<times> Editor" where
  "applyCrop imageRef hasContext toDataURL s =
     (case (imageRef, cropStart s, cropEnd s) of
        (Some img, Some cStart, Some cEnd) \<Rightarrow>
          (case cropRect cStart cEnd img of
             None \<Rightarrow> (None, s)
           | Some ops \<Rightarrow>
               if \<not> hasContext then (None, s)
               else
                 (case currentImage s of
                    None \<Rightarrow> (Some ops, s)
                  | Some cur \<Rightarrow>
                      (let croppedBase64 = toDataURL ops (mimeType cur);
                           newImage = cur\<lparr> base64 := croppedBase64, previewUrl := croppedBase64 \<rparr>
                       in (Some ops,
                           (addToHistory newImage s)
                             \<lparr> cropStart := None, cropEnd := None, generatedImage := None \<rparr>))))
      | _ \<Rightarrow> (None, s))"

section \<open>Example sessions\<close>

text \<open>Concrete images, remote services and states, for the examples below.\<close>

definition sample_image :: "string \<Rightarrow> ImageFile" where
  "sample_image k =
     \<lparr> file_handle = Some (File ''photo.png'' ''image/png''),
       previewUrl = ''blob:'' @ k,
       base64 = ''data:image/png;base64,'' @ k,
       mimeType = ''image/png'' \<rparr>"

text \<open>A service that answers with one image part, one that answers with one text
  part, and one whose call fails.\<close>

definition service_image :: "GenerateContentParameters \<Rightarrow> error + GenerateContentResponse" where
  "service_image req =
     Inr \<lparr> candidates = Some [\<lparr> content = Some \<lparr> parts = Some
       [\<lparr> inlineData = Some \<lparr> inl_mimeType = Some ''image/jpeg'', inl_data = Some ''QUJD'' \<rparr>,
          part_text = None \<rparr>] \<rparr> \<rparr>] \<rparr>"


definition service_down :: "GenerateContentParameters \<Rightarrow> error + GenerateContentResponse" where
  "service_down req = Inl (Error ''fetch failed'')"

text \<open>A fresh session; the same with a custom prompt typed in; with Enter pressed on
  it once, so that an edit is pending; with an edit's image received; with a failure
  received; and a history of three images with the cursor moved back to the middle.\<close>

definition st_ready :: Editor where
  "st_ready = Editor_init (sample_image ''A'')"

definition st_typed :: Editor where
  "st_typed = st_ready\<lparr> customPrompt := ''make it blue'' \<rparr>"

definition st_processing :: Editor where
  "st_processing = fst (customPrompt_keyDown_Enter st_typed)"

definition st_complete :: Editor where
  "st_complete =
     handleGenerate (Some ''key'') service_image 1700000000000 ''make it blue'' defaultConfig
       (addToHistory (sample_image ''B'') st_ready)"

definition st_error :: Editor where
  "st_error =
     handleGenerate (Some ''key'') service_down 1700000000000 ''make it blue'' defaultConfig
       (addToHistory (sample_image ''B'') st_ready)"

definition st_three :: Editor where
  "st_three =
     undo (addToHistory (sample_image ''C'') (addToHistory (sample_image ''B'') st_ready))"

definition sample_element :: HTMLImageElement where
  "sample_element =
     \<lparr> rect_width = 400, rect_height = 300, naturalWidth = 800, naturalHeight = 600 \<rparr>"

section \<open>Evaluating the example sessions\<close>

lemma trim_blue: "trim ''make it blue'' = ''make it blue''"
  by (simp add: trim_def isWhiteSpace_def)

lemma st_ready_eval:
  "st_ready = \<lparr> history = [sample_image ''A''], historyIndex = 0,
       currentImage = Some (sample_image ''A''), generatedImage = None, status = READY,
       errorMessage = None, activeTab = Refine, customPrompt = [], targetObject = [],
       editAction = [], cropStart = None, cropEnd = None, isDraggingCrop = False \<rparr>"
  by (simp add: st_ready_def Editor_init_def)

lemma st_typed_eval:
  "st_typed = \<lparr> history = [sample_image ''A''], historyIndex = 0,
       currentImage = Some (sample_image ''A''), generatedImage = None, status = READY,
       errorMessage = None, activeTab = Refine, customPrompt = ''make it blue'',
       targetObject = [], editAction = [], cropStart = None, cropEnd = None,
       isDraggingCrop = False \<rparr>"
  by (simp add: st_typed_def st_ready_eval)

lemma st_processing_eval:
  "st_processing = \<lparr> history = [sample_image ''A''], historyIndex = 0,
       currentImage = Some (sample_image ''A''), generatedImage = None, status = PROCESSING,
       errorMessage = None, activeTab = Refine, customPrompt = ''make it blue'',
       targetObject = [], editAction = [], cropStart = None, cropEnd = None,
       isDraggingCrop = False \<rparr>"
  by (simp add: st_processing_def customPrompt_keyDown_Enter_def handleGenerate_dispatch_def
      st_typed_eval trim_blue Let_def)

lemma st_second_eval:
  "addToHistory (sample_image ''B'') st_ready =
     \<lparr> history = [sample_image ''A'', sample_image ''B''], historyIndex = 1,
       currentImage = Some (sample_image ''B''), generatedImage = None, status = READY,
       errorMessage = None, activeTab = Refine, customPrompt = [], targetObject = [],
       editAction = [], cropStart = None, cropEnd = None, isDraggingCrop = False \<rparr>"
  by (simp add: st_ready_eval addToHistory_def slice0_def Let_def)

lemma st_complete_eval:
  "st_complete =
     \<lparr> history = [sample_image ''A'', sample_image ''B''], historyIndex = 1,
       currentImage = Some (sample_image ''B''),
       generatedImage = Some \<lparr> imageUrl = ''data:image/jpeg;base64,QUJD'',
         prompt = ''make it blue'', timestamp = 1700000000000 \<rparr>,
       status = COMPLETE,
       errorMessage = None, activeTab = Refine, customPrompt = [], targetObject = [],
       editAction = [], cropStart = None, cropEnd = None, isDraggingCrop = False \<rparr>"
  by (simp add: st_complete_def st_second_eval handleGenerate_def handleGenerate_dispatch_def
      handleGenerate_settle_def editImageWithGemini_def getClient_def service_image_def
      read_response_def template_def trim_blue Let_def)

lemma st_error_eval:
  "st_error =
     \<lparr> history = [sample_image ''A'', sample_image ''B''], historyIndex = 1,
       currentImage = Some (sample_image ''B''), generatedImage = None, status = ERROR,
       errorMessage = Some ''fetch failed'', activeTab = Refine, customPrompt = [],
       targetObject = [], editAction = [], cropStart = None, cropEnd = None,
       isDraggingCrop = False \<rparr>"
  by (simp add: st_error_def st_second_eval handleGenerate_def handleGenerate_dispatch_def
      handleGenerate_settle_def handleGenerate_catch_def editImageWithGemini_def getClient_def
      service_down_def trim_blue Let_def)

lemma st_three_eval:
  "st_three = \<lparr> history = [sample_image ''A'', sample_image ''B'', sample_image ''C''],
       historyIndex = 1,
       currentImage = Some (sample_image ''B''), generatedImage = None, status = READY,
       errorMessage = None, activeTab = Refine, customPrompt = [], targetObject = [],
       editAction = [], cropStart = None, cropEnd = None, isDraggingCrop = False \<rparr>"
  by (simp add: st_three_def st_ready_eval addToHistory_def undo_def slice0_def index_js_def
      Let_def)

section \<open>The history\<close>

lemma slice0_in_range:
  "0 \<le> i \<Longrightarrow> i < int (length xs) \<Longrightarrow> slice0 xs (i + 1) = take (nat i + 1) xs"
  by (auto simp: slice0_def Let_def min_def nat_add_distrib)

lemma addToHistory_length_cursor:
  "int (length (history (addToHistory n s))) = historyIndex (addToHistory n s) + 1"
  by (simp add: addToHistory_def Let_def)

text \<open>
  C3. \<open>addToHistory\<close> leaves a history whose length is the cursor plus one, in every
  state, and makes the new image current. When the cursor indexes the history, the new
  history is the entries up to and including the old cursor followed by the new image
  (everything after the cursor is gone), the cursor has advanced by one, and the
  entries up to the old cursor are where they were.
\<close>

theorem addToHistory_commit:
  "int (length (history (addToHistory n s))) = historyIndex (addToHistory n s) + 1 \<and>
   currentImage (addToHistory n s) = Some n \<and>
   (0 \<le> historyIndex s \<and> historyIndex s < int (length (history s)) \<longrightarrow>
      history (addToHistory n s) = take (nat (historyIndex s) + 1) (history s) @ [n] \<and>
      historyIndex (addToHistory n s) = historyIndex s + 1 \<and>
      (\<forall>j \<le> nat (historyIndex s). history (addToHistory n s) ! j = history s ! j))"
proof (intro conjI impI)
  show "int (length (history (addToHistory n s))) = historyIndex (addToHistory n s) + 1"
    by (rule addToHistory_length_cursor)
  show "currentImage (addToHistory n s) = Some n"
    by (simp add: addToHistory_def Let_def)
next
  assume r: "0 \<le> historyIndex s \<and> historyIndex s < int (length (history s))"
  then have sl:
    "slice0 (history s) (historyIndex s + 1) = take (nat (historyIndex s) + 1) (history s)"
    by (simp add: slice0_in_range)
  show h: "history (addToHistory n s) = take (nat (historyIndex s) + 1) (history s) @ [n]"
    by (simp add: addToHistory_def Let_def sl)
  from r have len:
    "length (take (nat (historyIndex s) + 1) (history s)) = nat (historyIndex s) + 1"
    by (simp add: min_def) linarith
  have "length (history (addToHistory n s)) = nat (historyIndex s) + 2"
    unfolding h using len by simp
  with r show "historyIndex (addToHistory n s) = historyIndex s + 1"
    using addToHistory_length_cursor [of n s] by linarith
  show "\<forall>j \<le> nat (historyIndex s). history (addToHistory n s) ! j = history s ! j"
    using len by (simp add: h nth_append)
qed

text \<open>With three images and the cursor on the second, a commit drops the third.\<close>

theorem addToHistory_commit_witness:
  "0 \<le> historyIndex st_three \<and> historyIndex st_three < int (length (history st_three)) \<and>
   history (addToHistory (sample_image ''D'') st_three) =
     [sample_image ''A'', sample_image ''B'', sample_image ''D''] \<and>
   historyIndex (addToHistory (sample_image ''D'') st_three) = 2 \<and>
   currentImage (addToHistory (sample_image ''D'') st_three) = Some (sample_image ''D'')"
  using addToHistory_commit [of "sample_image ''D''" st_three]
  by (simp add: st_three_eval)

lemma history_inv_init: "history_inv (Editor_init img)"
  by (simp add: history_inv_def Editor_init_def)

lemma history_inv_addToHistory: "history_inv (addToHistory n s)"
  by (simp add: history_inv_def addToHistory_def Let_def nth_append)

lemma history_inv_undo: "history_inv s \<Longrightarrow> history_inv (undo s)"
  by (auto simp: history_inv_def undo_def index_js_def Let_def)

lemma history_inv_redo: "history_inv s \<Longrightarrow> history_inv (redo s)"
  by (auto simp: history_inv_def redo_def index_js_def Let_def)

lemma history_inv_current:
  "history_inv s \<Longrightarrow>
     index_js (history s) (historyIndex s) = currentImage s \<and> currentImage s \<noteq> None"
  by (auto simp: history_inv_def index_js_def)

text \<open>
  C4. The history is non-empty and the cursor indexes it when the editor is created,
  and \<open>addToHistory\<close>, \<open>undo\<close> and \<open>redo\<close> keep it so; then \<open>history[historyIndex]\<close> is
  defined, and it is the current image.
\<close>

theorem history_inv_preserved:
  "history_inv (Editor_init img) \<and>
   (history_inv s \<longrightarrow>
      history_inv (addToHistory n s) \<and> history_inv (undo s) \<and> history_inv (redo s) \<and>
      index_js (history s) (historyIndex s) = currentImage s \<and> currentImage s \<noteq> None)"
  using history_inv_init history_inv_addToHistory history_inv_undo history_inv_redo
    history_inv_current by blast

theorem history_inv_preserved_witness:
  "history_inv st_three \<and>
   history_inv (addToHistory (sample_image ''D'') st_three) \<and>
   history_inv (undo st_three) \<and> history_inv (redo st_three) \<and>
   index_js (history st_three) (historyIndex st_three) = Some (sample_image ''B'')"
proof -
  have h: "history_inv st_three"
    by (simp add: history_inv_def st_three_eval)
  show ?thesis
    using h history_inv_preserved [of "sample_image ''A''" st_three "sample_image ''D''"]
    by (simp add: st_three_eval)
qed

text \<open>The invariant holds after any sequence of commits, undos and redos, and the
  other handlers that touch the history keep it too.\<close>

lemma history_inv_apply_op: "history_inv s \<Longrightarrow> history_inv (apply_op s ev)"
  by (cases ev) (simp_all add: history_inv_addToHistory history_inv_undo history_inv_redo)

lemma history_inv_foldl: "history_inv s \<Longrightarrow> history_inv (foldl apply_op s evs)"
  by (induction evs arbitrary: s) (simp_all add: history_inv_apply_op)

lemma history_inv_reachable: "history_inv (foldl apply_op (Editor_init img) evs)"
  by (rule history_inv_foldl [OF history_inv_init])

section \<open>Undo and redo\<close>

text \<open>
  At the first entry \<open>undo\<close> does nothing, and so does \<open>redo\<close> at the last one; but a
  call of either evaluates to \<open>undefined\<close>, not to \<open>false\<close>: in a fresh session,
\<close>

theorem undo_call_returns_undefined:
  "historyIndex st_ready = 0 \<and> fst (undo_call st_ready) = Undefined \<and>
   fst (undo_call st_ready) \<noteq> Boolean False"
  by (simp add: undo_call_def st_ready_eval)

text \<open>
  C9, as amended. \<open>undo()\<close> with the cursor at 0 leaves the whole state as it was, and
  \<open>redo()\<close> with the cursor at the last index leaves the whole state as it was;
  neither call returns a value.
\<close>

theorem undo_redo_at_bounds:
  "(historyIndex s = 0 \<longrightarrow> undo_call s = (Undefined, s)) \<and>
   (historyIndex s = int (length (history s)) - 1 \<longrightarrow> redo_call s = (Undefined, s))"
  by (simp add: undo_call_def redo_call_def undo_def redo_def)

theorem undo_redo_at_bounds_witness:
  "historyIndex st_ready = 0 \<and> undo_call st_ready = (Undefined, st_ready) \<and>
   historyIndex st_ready = int (length (history st_ready)) - 1 \<and>
   redo_call st_ready = (Undefined, st_ready)"
  using undo_redo_at_bounds [of st_ready] by (simp add: st_ready_eval)

text \<open>
  \<open>undo\<close> and \<open>redo\<close> never write the status: after an image has been received the
  status stays \<open>COMPLETE\<close>, and after a failure it stays \<open>ERROR\<close> with its message.
\<close>

theorem undo_keeps_status:
  "status st_complete \<noteq> PROCESSING \<and> status (undo st_complete) = COMPLETE \<and>
   status (undo st_complete) \<noteq> READY \<and>
   status st_error \<noteq> PROCESSING \<and> status (undo st_error) = ERROR \<and>
   errorMessage (undo st_error) = Some ''fetch failed''"
  by (simp add: st_complete_eval st_error_eval undo_def index_js_def Let_def)

text \<open>
  C6, as amended. In every state that satisfies the history invariant (whatever its
  status), \<open>undo\<close> with an entry before the cursor, and \<open>redo\<close> with an entry after it,
  move the cursor by one, make the entry under the new cursor the current image and
  discard the pending generated image; every other cell, the status and the error
  message among them, is left as it was.
\<close>

theorem undo_redo_move:
  assumes "history_inv s"
  shows "(0 < historyIndex s \<longrightarrow>
            undo s = s\<lparr> historyIndex := historyIndex s - 1,
                        currentImage := Some (history s ! nat (historyIndex s - 1)),
                        generatedImage := None \<rparr> \<and>
            status (undo s) = status s \<and> errorMessage (undo s) = errorMessage s) \<and>
         (historyIndex s < int (length (history s)) - 1 \<longrightarrow>
            redo s = s\<lparr> historyIndex := historyIndex s + 1,
                        currentImage := Some (history s ! nat (historyIndex s + 1)),
                        generatedImage := None \<rparr> \<and>
            status (redo s) = status s \<and> errorMessage (redo s) = errorMessage s)"
  using assms by (auto simp: history_inv_def undo_def redo_def index_js_def Let_def)

theorem undo_redo_move_witness:
  "history_inv st_three \<and>
   undo st_three = st_three\<lparr> historyIndex := 0, currentImage := Some (sample_image ''A'') \<rparr> \<and>
   redo st_three = st_three\<lparr> historyIndex := 2, currentImage := Some (sample_image ''C'') \<rparr> \<and>
   status (undo st_three) = READY \<and> status (redo st_three) = READY"
proof -
  have h: "history_inv st_three"
    by (simp add: history_inv_def st_three_eval)
  show ?thesis
    using h undo_redo_move [OF h] by (simp add: st_three_eval)
qed

section \<open>The remote call and its failures\<close>

text \<open>
  C1 (the code departs from it). \<open>handleGenerate\<close> in a state whose status is
  \<open>PROCESSING\<close> should change nothing and issue no call. In \<open>st_processing\<close> an edit
  is pending after one press of Enter in the custom prompt. A second press, or a click
  on the custom prompt's button, issues a second call to \<open>editImageWithGemini\<close>; a
  preset button, disabled while processing, issues none. When the second call settles
  with an image, that image is stored as the generated image.
\<close>

theorem second_call_while_processing:
  "status st_processing = PROCESSING \<and>
   customPrompt_keyDown_Enter st_processing =
     (st_processing,
      Some \<lparr> call_base64 = ''data:image/png;base64,A'', call_mimeType = ''image/png'',
             call_prompt = ''make it blue'', call_config = defaultConfig \<rparr>) \<and>
   customPromptButton_click st_processing = customPrompt_keyDown_Enter st_processing \<and>
   presetButton_click ''make it blue'' st_processing = (st_processing, None) \<and>
   generatedImage st_processing = None \<and>
   generatedImage
     (handleGenerate (Some ''key'') service_image 1700000000000 ''make it blue'' defaultConfig
        st_processing) =
     Some \<lparr> imageUrl = ''data:image/jpeg;base64,QUJD'', prompt = ''make it blue'',
            timestamp = 1700000000000 \<rparr>"
  by (simp add: st_processing_eval customPrompt_keyDown_Enter_def customPromptButton_click_def
      customPromptButton_disabled_def presetButton_click_def presetButton_disabled_def
      handleGenerate_def handleGenerate_dispatch_def handleGenerate_settle_def
      editImageWithGemini_def getClient_def service_image_def read_response_def template_def
      trim_blue Let_def sample_image_def)

text \<open>When the remote call fails, \<open>editImageWithGemini\<close> rejects; it does not resolve
  to a result that carries the reason:\<close>

theorem editImageWithGemini_rejects:
  "editImageWithGemini (Some ''key'') service_down ''data:image/png;base64,A'' ''image/png''
     ''make it blue'' defaultConfig = Inl (Error ''fetch failed'')"
  by (simp add: editImageWithGemini_def getClient_def service_down_def)

text \<open>
  C2, as amended. When the remote call fails, \<open>editImageWithGemini\<close> rejects with the
  very error the call failed with; its caller \<open>handleGenerate\<close> catches the rejection
  and turns it into state: the status becomes \<open>ERROR\<close>, the error message is the
  error's message (or \<open>Failed to generate image.\<close> when that is empty), and nothing else
  changes.
\<close>

theorem editImageWithGemini_rethrows:
  assumes key: "getClient apiKey = Inr k"
    and cur: "currentImage s = Some cur"
    and pr: "trim finalPrompt \<noteq> []"
    and fail: "generateContent (requestOf (base64 cur) (mimeType cur) finalPrompt config) = Inl e"
  shows "editImageWithGemini apiKey generateContent (base64 cur) (mimeType cur) finalPrompt config
           = Inl e \<and>
         handleGenerate apiKey generateContent now finalPrompt config s =
           s\<lparr> status := ERROR,
              errorMessage :=
                Some (if message e \<noteq> [] then message e else ''Failed to generate image.'') \<rparr>"
proof -
  have r: "editImageWithGemini apiKey generateContent (base64 cur) (mimeType cur) finalPrompt
             config = Inl e"
    by (simp add: editImageWithGemini_def key fail)
  have d: "handleGenerate_dispatch finalPrompt config s =
     (s\<lparr> status := PROCESSING, errorMessage := None \<rparr>,
      Some \<lparr> call_base64 = base64 cur, call_mimeType = mimeType cur,
             call_prompt = finalPrompt, call_config = config \<rparr>)"
    using pr by (simp add: handleGenerate_dispatch_def cur Let_def)
  show ?thesis
    by (simp add: r handleGenerate_def d handleGenerate_settle_def handleGenerate_catch_def)
qed

theorem editImageWithGemini_rethrows_witness:
  "getClient (Some ''key'') = Inr ''key'' \<and>
   editImageWithGemini (Some ''key'') service_down (base64 (sample_image ''A''))
     (mimeType (sample_image ''A'')) ''make it blue'' defaultConfig
       = Inl (Error ''fetch failed'') \<and>
   handleGenerate (Some ''key'') service_down 1700000000000 ''make it blue'' defaultConfig
     st_ready = st_ready\<lparr> status := ERROR, errorMessage := Some ''fetch failed'' \<rparr>"
proof -
  have key: "getClient (Some ''key'') = Inr ''key''" by (simp add: getClient_def)
  have cur: "currentImage st_ready = Some (sample_image ''A'')" by (simp add: st_ready_eval)
  have pr: "trim ''make it blue'' \<noteq> []" by (simp add: trim_blue)
  have fail: "service_down (requestOf (base64 (sample_image ''A'')) (mimeType (sample_image ''A''))
      ''make it blue'' defaultConfig) = Inl (Error ''fetch failed'')"
    by (simp add: service_down_def)
  show ?thesis
    using key
      editImageWithGemini_rethrows [where generateContent = service_down and now = 1700000000000,
        OF key cur pr fail]
    by simp
qed

section \<open>A response without an image\<close>





section \<open>Cropping\<close>

text \<open>
  C7. With a display size of 400 by 300, a natural size of 800 by 600 and a drag from
  (10, 10) to (110, 60), the rectangle is x 20, y 20, width 200, height 100 in natural
  pixels; the reversed drag gives the same rectangle. Each axis has its own scale
  factor: with a natural height of 900 the vertical values are scaled by 3 and the
  horizontal ones still by 2.
\<close>

theorem cropRect_example:
  "cropRect \<lparr> pt_x = 10, pt_y = 10 \<rparr> \<lparr> pt_x = 110, pt_y = 60 \<rparr> sample_element =
     Some \<lparr> canvas_width = Some 200, canvas_height = Some 100,
            sx = Some 20, sy = Some 20, sWidth = Some 200, sHeight = Some 100 \<rparr> \<and>
   cropRect \<lparr> pt_x = 110, pt_y = 60 \<rparr> \<lparr> pt_x = 10, pt_y = 10 \<rparr> sample_element =
     Some \<lparr> canvas_width = Some 200, canvas_height = Some 100,
            sx = Some 20, sy = Some 20, sWidth = Some 200, sHeight = Some 100 \<rparr> \<and>
   cropRect \<lparr> pt_x = 10, pt_y = 10 \<rparr> \<lparr> pt_x = 110, pt_y = 60 \<rparr>
       (sample_element\<lparr> naturalHeight := 900 \<rparr>) =
     Some \<lparr> canvas_width = Some 200, canvas_height = Some 150,
            sx = Some 20, sy = Some 30, sWidth = Some 200, sHeight = Some 150 \<rparr>"
  by (simp add: cropRect_def sample_element_def js_div_def js_mul_def Let_def)

text \<open>
  C8. When the selection is less than 10 display pixels wide or less than 10 high,
  \<open>applyCrop\<close> draws nothing and leaves the whole state as it was: no entry is added to
  the history, and the cursor, the current image and the pending generated image are
  unchanged.
\<close>

theorem applyCrop_tiny:
  assumes "cropStart s = Some cStart" and "cropEnd s = Some cEnd"
    and "\<bar>pt_x cEnd - pt_x cStart\<bar> < 10 \<or> \<bar>pt_y cEnd - pt_y cStart\<bar> < 10"
  shows "applyCrop imageRef hasContext toDataURL s = (None, s)"
proof (cases imageRef)
  case None
  then show ?thesis by (simp add: applyCrop_def)
next
  case (Some img)
  have "cropRect cStart cEnd img = None"
    using assms(3) by (simp add: cropRect_def Let_def)
  then show ?thesis by (simp add: applyCrop_def Some assms(1,2))
qed

theorem applyCrop_tiny_witness:
  "applyCrop (Some sample_element) True (\<lambda>ops mime. ''data:image/png;base64,Q1JPUA=='')
     (st_complete\<lparr> cropStart := Some \<lparr> pt_x = 10, pt_y = 10 \<rparr>,
                   cropEnd := Some \<lparr> pt_x = 15, pt_y = 60 \<rparr> \<rparr>) =
   (None, st_complete\<lparr> cropStart := Some \<lparr> pt_x = 10, pt_y = 10 \<rparr>,
                         cropEnd := Some \<lparr> pt_x = 15, pt_y = 60 \<rparr> \<rparr>)"
  using applyCrop_tiny [where s = "st_complete\<lparr> cropStart := Some \<lparr> pt_x = 10, pt_y = 10 \<rparr>,
                   cropEnd := Some \<lparr> pt_x = 15, pt_y = 60 \<rparr> \<rparr>"
      and cStart = "\<lparr> pt_x = 10, pt_y = 10 \<rparr>" and cEnd = "\<lparr> pt_x = 15, pt_y = 60 \<rparr>"
      and imageRef = "Some sample_element" and hasContext = True
      and toDataURL = "\<lambda>ops mime. ''data:image/png;base64,Q1JPUA==''"]
  by simp

text \<open>
  An accepted crop is committed to the history and clears the pending generated image,
  whatever the status, which it leaves as it was.
\<close>

theorem applyCrop_commit:
  assumes st: "cropStart s = Some cStart" and en: "cropEnd s = Some cEnd"
    and rect: "cropRect cStart cEnd img = Some ops"
    and cur: "currentImage s = Some cur"
  shows "applyCrop (Some img) True toDataURL s =
           (Some ops,
            (addToHistory
               (cur\<lparr> base64 := toDataURL ops (mimeType cur),
                     previewUrl := toDataURL ops (mimeType cur) \<rparr>) s)
              \<lparr> cropStart := None, cropEnd := None, generatedImage := None \<rparr>) \<and>
         generatedImage (snd (applyCrop (Some img) True toDataURL s)) = None \<and>
         status (snd (applyCrop (Some img) True toDataURL s)) = status s"
  by (simp add: applyCrop_def st en rect cur Let_def addToHistory_def)

theorem applyCrop_commit_witness:
  "generatedImage st_complete \<noteq> None \<and>
   applyCrop (Some sample_element) True (\<lambda>ops mime. ''data:image/png;base64,Q1JPUA=='')
     (st_complete\<lparr> cropStart := Some \<lparr> pt_x = 10, pt_y = 10 \<rparr>,
                   cropEnd := Some \<lparr> pt_x = 110, pt_y = 60 \<rparr> \<rparr>) =
   (Some \<lparr> canvas_width = Some 200, canvas_height = Some 100,
            sx = Some 20, sy = Some 20, sWidth = Some 200, sHeight = Some 100 \<rparr>,
    st_complete\<lparr> history := [sample_image ''A'', sample_image ''B'',
                     (sample_image ''B'')\<lparr> base64 := ''data:image/png;base64,Q1JPUA=='',
                        previewUrl := ''data:image/png;base64,Q1JPUA=='' \<rparr>],
                  historyIndex := 2,
                  currentImage := Some ((sample_image ''B'')
                     \<lparr> base64 := ''data:image/png;base64,Q1JPUA=='',
                       previewUrl := ''data:image/png;base64,Q1JPUA=='' \<rparr>),
                  generatedImage := None \<rparr>)"
proof -
  let ?s = "st_complete\<lparr> cropStart := Some \<lparr> pt_x = 10, pt_y = 10 \<rparr>,
                   cropEnd := Some \<lparr> pt_x = 110, pt_y = 60 \<rparr> \<rparr>"
  let ?ops = "\<lparr> canvas_width = Some 200, canvas_height = Some 100,
            sx = Some 20, sy = Some 20, sWidth = Some 200, sHeight = Some (100::real) \<rparr>"
  have st: "cropStart ?s = Some \<lparr> pt_x = 10, pt_y = 10 \<rparr>" by simp
  have en: "cropEnd ?s = Some \<lparr> pt_x = 110, pt_y = 60 \<rparr>" by simp
  have rect: "cropRect \<lparr> pt_x = 10, pt_y = 10 \<rparr> \<lparr> pt_x = 110, pt_y = 60 \<rparr> sample_element
      = Some ?ops"
    by (simp add: cropRect_def sample_element_def js_div_def js_mul_def Let_def)
  have cur: "currentImage ?s = Some (sample_image ''B'')" by (simp add: st_complete_eval)
  show ?thesis
    using applyCrop_commit [where toDataURL = "\<lambda>ops mime. ''data:image/png;base64,Q1JPUA==''",
        OF st en rect cur]
    by (simp add: st_complete_eval addToHistory_def slice0_def Let_def)
qed

section \<open>Keeping a generated image\<close>

text \<open>The pattern \<open>/data:([^;]+);/\<close> matches at a position exactly when the text there
  is \<open>data:\<close>, a non-empty run without \<open>;\<close>, and \<open>;\<close>.\<close>

lemma mimeMatch_at_SomeD:
  assumes a: "mimeMatch_at str = Some m"
  shows "take 5 str = ''data:'' \<and> m = takeWhile (\<lambda>c. c \<noteq> CHR '';'') (drop 5 str) \<and> m \<noteq> []
    \<and> dropWhile (\<lambda>c. c \<noteq> CHR '';'') (drop 5 str) \<noteq> []"
proof (cases "take 5 str = ''data:''")
  case True
  then have e: "mimeMatch_at str =
     (if takeWhile (\<lambda>c. c \<noteq> CHR '';'') (drop 5 str) \<noteq> [] \<and> dropWhile (\<lambda>c. c \<noteq> CHR '';'') (drop 5 str) \<noteq> []
      then Some (takeWhile (\<lambda>c. c \<noteq> CHR '';'') (drop 5 str)) else None)"
    unfolding mimeMatch_at_def Let_def by (simp only: simp_thms if_True)
  show ?thesis using a True unfolding e by (metis option.distinct(1) option.inject)
next
  case False
  then have "mimeMatch_at str = None"
    unfolding mimeMatch_at_def by (simp only: simp_thms if_False)
  with a show ?thesis by simp
qed


lemma mimeMatch_at_SomeI:
  assumes t: "take 5 str = ''data:''"
    and ne: "takeWhile (\<lambda>c. c \<noteq> CHR '';'') (drop 5 str) \<noteq> []"
    and af: "dropWhile (\<lambda>c. c \<noteq> CHR '';'') (drop 5 str) \<noteq> []"
  shows "mimeMatch_at str = Some (takeWhile (\<lambda>c. c \<noteq> CHR '';'') (drop 5 str))"
  unfolding mimeMatch_at_def Let_def using t ne af by (simp only: simp_thms if_True)

lemma dropWhile_semicolon:
  "dropWhile (\<lambda>c. c \<noteq> CHR '';'') xs \<noteq> [] \<Longrightarrow>
     \<exists>rest. dropWhile (\<lambda>c. c \<noteq> CHR '';'') xs = CHR '';'' # rest"
  by (induction xs) (auto split: if_splits)

lemma takeWhile_run:
  "CHR '';'' \<notin> set m \<Longrightarrow> takeWhile (\<lambda>c. c \<noteq> CHR '';'') (m @ CHR '';'' # rest) = m"
  by (induction m) auto

lemma dropWhile_run:
  "CHR '';'' \<notin> set m \<Longrightarrow>
     dropWhile (\<lambda>c. c \<noteq> CHR '';'') (m @ CHR '';'' # rest) = CHR '';'' # rest"
  by (induction m) auto

lemma data_prefix_take: "take 5 (''data:'' @ xs) = ''data:''"
  by simp

lemma data_prefix_drop: "drop 5 (''data:'' @ xs) = xs"
  by simp

lemma mimeMatch_at_Some_iff:
  "mimeMatch_at str = Some m \<longleftrightarrow>
     (\<exists>rest. str = ''data:'' @ m @ '';'' @ rest \<and> m \<noteq> [] \<and> CHR '';'' \<notin> set m)"
proof
  assume a: "mimeMatch_at str = Some m"
  let ?r = "drop 5 str"
  from mimeMatch_at_SomeD [OF a] have t: "take 5 str = ''data:''"
    and m: "m = takeWhile (\<lambda>c. c \<noteq> CHR '';'') ?r" and ne: "m \<noteq> []"
    and af: "dropWhile (\<lambda>c. c \<noteq> CHR '';'') ?r \<noteq> []"
    by blast+
  from dropWhile_semicolon [OF af] obtain rest
    where d: "dropWhile (\<lambda>c. c \<noteq> CHR '';'') ?r = CHR '';'' # rest" by blast
  have "?r = m @ dropWhile (\<lambda>c. c \<noteq> CHR '';'') ?r"
    unfolding m by (rule takeWhile_dropWhile_id [symmetric])
  then have r: "?r = m @ CHR '';'' # rest" unfolding d .
  have "str = take 5 str @ ?r" by (rule append_take_drop_id [symmetric])
  then have "str = ''data:'' @ m @ '';'' @ rest"
    unfolding t r by simp
  moreover have "CHR '';'' \<notin> set m"
    unfolding m by (auto dest: set_takeWhileD)
  ultimately show "\<exists>rest. str = ''data:'' @ m @ '';'' @ rest \<and> m \<noteq> [] \<and> CHR '';'' \<notin> set m"
    using ne by blast
next
  assume "\<exists>rest. str = ''data:'' @ m @ '';'' @ rest \<and> m \<noteq> [] \<and> CHR '';'' \<notin> set m"
  then obtain rest where s: "str = ''data:'' @ m @ CHR '';'' # rest" and ne: "m \<noteq> []"
    and ns: "CHR '';'' \<notin> set m" by auto
  have t: "take 5 str = ''data:''" unfolding s by (rule data_prefix_take)
  have r: "drop 5 str = m @ CHR '';'' # rest" unfolding s by (rule data_prefix_drop)
  have "mimeMatch_at str = Some (takeWhile (\<lambda>c. c \<noteq> CHR '';'') (drop 5 str))"
  proof (rule mimeMatch_at_SomeI [OF t])
    show "takeWhile (\<lambda>c. c \<noteq> CHR '';'') (drop 5 str) \<noteq> []"
      unfolding r takeWhile_run [OF ns] by (rule ne)
    show "dropWhile (\<lambda>c. c \<noteq> CHR '';'') (drop 5 str) \<noteq> []"
      unfolding r dropWhile_run [OF ns] by simp
  qed
  then show "mimeMatch_at str = Some m"
    unfolding r takeWhile_run [OF ns] .
qed


lemma mimeMatch_prefix:
  assumes "m \<noteq> []" and "CHR '';'' \<notin> set m"
  shows "mimeMatch (''data:'' @ m @ '';'' @ rest) = Some m"
proof -
  have at: "mimeMatch_at (''data:'' @ m @ '';'' @ rest) = Some m"
    using assms mimeMatch_at_Some_iff by blast
  obtain c cs where e: "''data:'' @ m @ '';'' @ rest = c # cs" by simp
  show ?thesis using at unfolding e by simp
qed

lemma mimeMatch_Some_occurs:
  "mimeMatch str = Some m \<Longrightarrow>
     \<exists>pre rest. str = pre @ ''data:'' @ m @ '';'' @ rest \<and> m \<noteq> [] \<and> CHR '';'' \<notin> set m"
proof (induction str)
  case Nil
  then show ?case by simp
next
  case (Cons c cs)
  show ?case
  proof (cases "mimeMatch_at (c # cs)")
    case None
    with Cons.prems have "mimeMatch cs = Some m" by simp
    from Cons.IH [OF this] obtain pre rest where
      "cs = pre @ ''data:'' @ m @ '';'' @ rest" "m \<noteq> []" "CHR '';'' \<notin> set m" by blast
    then have "c # cs = (c # pre) @ ''data:'' @ m @ '';'' @ rest" by simp
    with \<open>m \<noteq> []\<close> \<open>CHR '';'' \<notin> set m\<close> show ?thesis by blast
  next
    case (Some m')
    with Cons.prems have "m' = m" by simp
    with Some obtain rest where
      "c # cs = ''data:'' @ m @ '';'' @ rest" "m \<noteq> []" "CHR '';'' \<notin> set m"
      using mimeMatch_at_Some_iff by blast
    then have "c # cs = [] @ ''data:'' @ m @ '';'' @ rest" by simp
    with \<open>m \<noteq> []\<close> \<open>CHR '';'' \<notin> set m\<close> show ?thesis by blast
  qed
qed

lemma mimeMatch_None_absent:
  "mimeMatch str = None \<Longrightarrow> str = pre @ ''data:'' @ m @ '';'' @ rest \<Longrightarrow>
     m = [] \<or> CHR '';'' \<in> set m"
proof (induction str arbitrary: pre)
  case Nil
  then show ?case by simp
next
  case (Cons c cs)
  from Cons.prems(1) have at: "mimeMatch_at (c # cs) = None" and tl: "mimeMatch cs = None"
    by (simp_all split: option.splits)
  show ?case
  proof (cases pre)
    case Nil
    with Cons.prems(2) have "c # cs = ''data:'' @ m @ '';'' @ rest" by simp
    with at show ?thesis using mimeMatch_at_Some_iff [of "c # cs" m] by auto
  next
    case (Cons p ps)
    with Cons.prems(2) have "cs = ps @ ''data:'' @ m @ '';'' @ rest" by simp
    from Cons.IH [OF tl this] show ?thesis .
  qed
qed

text \<open>
  \<open>handleUseAsSource\<close> does not carry the image data over: the new image's \<open>base64\<close>
  and \<open>previewUrl\<close> are the generated data URL, not those of the previous image.
\<close>

theorem handleUseAsSource_replaces_payload:
  "map_option base64 (currentImage st_complete) = Some ''data:image/png;base64,B'' \<and>
   map_option base64 (currentImage (handleUseAsSource st_complete))
     = Some ''data:image/jpeg;base64,QUJD'' \<and>
   map_option previewUrl (currentImage st_complete) = Some ''blob:B'' \<and>
   map_option previewUrl (currentImage (handleUseAsSource st_complete))
     = Some ''data:image/jpeg;base64,QUJD''"
  by (simp add: st_complete_eval handleUseAsSource_def addToHistory_def Let_def sample_image_def)

text \<open>
  C10, as amended. When \<open>handleUseAsSource\<close> commits a pending generated image, the new
  current image has the generated data URL as both \<open>base64\<close> and \<open>previewUrl\<close>; only
  the file handle is carried over from the previous current image. Its mime type is the
  first match of \<open>data:<mime>;\<close> in the URL: the mime of the URL's \<open>data:<mime>;\<close>
  prefix when it has one, and \<open>image/png\<close> when the URL has no such match at any
  position.
\<close>

theorem handleUseAsSource_newImage:
  assumes gen: "generatedImage s = Some g" and cur: "currentImage s = Some cur"
  shows "currentImage (handleUseAsSource s) =
           Some \<lparr> file_handle = file_handle cur,
                  previewUrl = imageUrl g,
                  base64 = imageUrl g,
                  mimeType = (case mimeMatch (imageUrl g) of
                                Some m \<Rightarrow> m | None \<Rightarrow> ''image/png'') \<rparr> \<and>
         (\<forall>m rest. imageUrl g = ''data:'' @ m @ '';'' @ rest \<and> m \<noteq> [] \<and> CHR '';'' \<notin> set m \<longrightarrow>
            map_option mimeType (currentImage (handleUseAsSource s)) = Some m) \<and>
         ((\<nexists>pre m rest. imageUrl g = pre @ ''data:'' @ m @ '';'' @ rest \<and> m \<noteq> [] \<and>
              CHR '';'' \<notin> set m) \<longrightarrow>
            map_option mimeType (currentImage (handleUseAsSource s)) = Some ''image/png'')"
proof -
  have c: "currentImage (handleUseAsSource s) =
           Some \<lparr> file_handle = file_handle cur,
                  previewUrl = imageUrl g,
                  base64 = imageUrl g,
                  mimeType = (case mimeMatch (imageUrl g) of
                                Some m \<Rightarrow> m | None \<Rightarrow> ''image/png'') \<rparr>"
    by (simp add: handleUseAsSource_def gen cur addToHistory_def Let_def)
  have p: "map_option mimeType (currentImage (handleUseAsSource s)) = Some m"
    if "imageUrl g = ''data:'' @ m @ '';'' @ rest" "m \<noteq> []" "CHR '';'' \<notin> set m" for m rest
    unfolding c using mimeMatch_prefix [OF that(2,3), of rest] that(1) by simp
  have n: "map_option mimeType (currentImage (handleUseAsSource s)) = Some ''image/png''"
    if "\<nexists>pre m rest. imageUrl g = pre @ ''data:'' @ m @ '';'' @ rest \<and> m \<noteq> [] \<and>
              CHR '';'' \<notin> set m"
  proof (cases "mimeMatch (imageUrl g)")
    case None
    then show ?thesis unfolding c by simp
  next
    case (Some m)
    from mimeMatch_Some_occurs [OF Some] that show ?thesis by blast
  qed
  from c p n show ?thesis by blast
qed

lemma mimeMatch_jpeg: "mimeMatch ''data:image/jpeg;base64,QUJD'' = Some ''image/jpeg''"
  by (simp add: mimeMatch_at_def)

lemma mimeMatch_empty_mime: "mimeMatch ''data:;base64,QUJD'' = None"
  by (simp add: mimeMatch_at_def)

theorem handleUseAsSource_newImage_witness:
  "currentImage (handleUseAsSource st_complete) =
     Some \<lparr> file_handle = Some (File ''photo.png'' ''image/png''),
            previewUrl = ''data:image/jpeg;base64,QUJD'',
            base64 = ''data:image/jpeg;base64,QUJD'',
            mimeType = ''image/jpeg'' \<rparr> \<and>
   currentImage (handleUseAsSource
       (st_complete\<lparr> generatedImage := Some \<lparr> imageUrl = ''data:;base64,QUJD'',
           prompt = ''make it blue'', timestamp = 1700000000000 \<rparr> \<rparr>)) =
     Some \<lparr> file_handle = Some (File ''photo.png'' ''image/png''),
            previewUrl = ''data:;base64,QUJD'',
            base64 = ''data:;base64,QUJD'',
            mimeType = ''image/png'' \<rparr>"
proof -
  let ?g = "\<lparr> imageUrl = ''data:image/jpeg;base64,QUJD'', prompt = ''make it blue'',
              timestamp = 1700000000000 \<rparr>"
  let ?g' = "\<lparr> imageUrl = ''data:;base64,QUJD'', prompt = ''make it blue'',
              timestamp = 1700000000000 \<rparr>"
  have gen: "generatedImage st_complete = Some ?g" by (simp add: st_complete_eval)
  have cur: "currentImage st_complete = Some (sample_image ''B'')" by (simp add: st_complete_eval)
  have gen': "generatedImage (st_complete\<lparr> generatedImage := Some ?g' \<rparr>) = Some ?g'" by simp
  have cur': "currentImage (st_complete\<lparr> generatedImage := Some ?g' \<rparr>) = Some (sample_image ''B'')"
    by (simp add: st_complete_eval)
  show ?thesis
    using handleUseAsSource_newImage [OF gen cur, THEN conjunct1]
      handleUseAsSource_newImage [OF gen' cur', THEN conjunct1]
    by (simp add: mimeMatch_jpeg mimeMatch_empty_mime sample_image_def del: mimeMatch.simps)
qed

section \<open>A whole session\<close>

text \<open>
  From a fresh session: an edit is requested and answered with an image (status
  \<open>COMPLETE\<close>); keeping it gives a history of two with the cursor at 1; an undo puts the
  cursor at 0 with status \<open>READY\<close> and the original image current.
\<close>

theorem end_to_end:
  "status (handleGenerate (Some ''key'') service_image 1700000000000 ''make it blue''
      defaultConfig st_ready) = COMPLETE \<and>
   length (history (handleUseAsSource (handleGenerate (Some ''key'') service_image 1700000000000
      ''make it blue'' defaultConfig st_ready))) = 2 \<and>
   historyIndex (handleUseAsSource (handleGenerate (Some ''key'') service_image 1700000000000
      ''make it blue'' defaultConfig st_ready)) = 1 \<and>
   historyIndex (undo (handleUseAsSource (handleGenerate (Some ''key'') service_image
      1700000000000 ''make it blue'' defaultConfig st_ready))) = 0 \<and>
   status (undo (handleUseAsSource (handleGenerate (Some ''key'') service_image
      1700000000000 ''make it blue'' defaultConfig st_ready))) = READY \<and>
   currentImage (undo (handleUseAsSource (handleGenerate (Some ''key'') service_image
      1700000000000 ''make it blue'' defaultConfig st_ready))) = Some (sample_image ''A'')"
proof -
  have g: "handleGenerate (Some ''key'') service_image 1700000000000 ''make it blue''
      defaultConfig st_ready =
     st_ready\<lparr> generatedImage := Some \<lparr> imageUrl = ''data:image/jpeg;base64,QUJD'',
         prompt = ''make it blue'', timestamp = 1700000000000 \<rparr>,
       status := COMPLETE \<rparr>"
    by (simp add: st_ready_eval handleGenerate_def handleGenerate_dispatch_def
      handleGenerate_settle_def editImageWithGemini_def getClient_def service_image_def
      read_response_def template_def trim_blue Let_def)
  show ?thesis
    unfolding g
    by (simp add: st_ready_eval handleUseAsSource_def addToHistory_def slice0_def undo_def
        index_js_def Let_def)
qed

end
